theory Spec2Isabelle
  imports Main "HOL-Library.AList"
begin

section \<open>Python values, exceptions and responses\<close>

text \<open>
  The exceptions the modelled code can raise. A function that may raise returns
  \<open>py_error + 'a\<close>, with \<open>Inl\<close> for the exception.
\<close>

datatype py_error = AttributeError | KeyError | TypeError | ValueError

text \<open>
  The Python values that travel through request payloads and response bodies: the JSON
  values, and the three kinds of non-JSON value that \<open>serialize_objectids\<close>
  distinguishes (an ObjectId, a set, anything else). A dict is an association list in
  insertion order with string keys.
\<close>

datatype pyval =
    PNone
  | PBool bool
  | PInt int
  | PStr string
  | PList "pyval list"
  | PDict "(string \<times> pyval) list"
  | PObjectId string
  | PSet "pyval list"
  | PObject string

record response =
  body :: pyval
  status :: int

subsection \<open>util.py: the error taxonomy\<close>

datatype api_error =
    ROOT_DISABLED
  | INVALID_CREDENTIALS
  | ALREADY_EXISTING
  | INVALID_NAME
  | PORT_IN_USE
  | INVALID_SORT_DIRECTION
  | UNKNOWN
  | INVALID_VERSION
  | TOO_MUCH_RAM
  | INVALID_PORT_TYPE
  | INVALID_PORT
  | ILLEGAL_SERVER_NAME
  | INVALID_JAVA_VERSION
  | SERVER_VERSION_POST_INSTALL
  | MISSING_VALUE
  | INVALID_SERVER
  | INVALID_SERVER_STATUS
  | UNAUTHENTICATED
  | NO_PERMISSION
  | INVALID_SESSION
  | SESSION_EXPIRED
  | INVALID_PAYLOAD_SCHEMA

text \<open>Class \<open>APIError\<close>: each attribute is the pair (string code, HTTP status).\<close>

fun APIError :: "api_error \<Rightarrow> string \<times> int" where
  "APIError ROOT_DISABLED = (''root_disabled'', 400)"
| "APIError INVALID_CREDENTIALS = (''invalid_credentials'', 401)"
| "APIError ALREADY_EXISTING = (''already_existing'', 400)"
| "APIError INVALID_NAME = (''invalid_name'', 400)"
| "APIError PORT_IN_USE = (''port_in_use'', 423)"
| "APIError INVALID_SORT_DIRECTION = (''invalid_sort_direction'', 400)"
| "APIError UNKNOWN = (''unknown'', 500)"
| "APIError INVALID_VERSION = (''invalid_version'', 400)"
| "APIError TOO_MUCH_RAM = (''too_much_ram'', 400)"
| "APIError INVALID_PORT_TYPE = (''invalid_port_type'', 400)"
| "APIError INVALID_PORT = (''invalid_port'', 400)"
| "APIError ILLEGAL_SERVER_NAME = (''illegal_server_name'', 400)"
| "APIError INVALID_JAVA_VERSION = (''invalid_java_version'', 400)"
| "APIError SERVER_VERSION_POST_INSTALL = (''server_version_post_install'', 500)"
| "APIError MISSING_VALUE = (''missing_value'', 400)"
| "APIError INVALID_SERVER = (''invalid_server'', 404)"
| "APIError INVALID_SERVER_STATUS = (''invalid_server_status'', 423)"
| "APIError UNAUTHENTICATED = (''unauthenticated'', 401)"
| "APIError NO_PERMISSION = (''no_permission'', 403)"
| "APIError INVALID_SESSION = (''invalid_session'', 401)"
| "APIError SESSION_EXPIRED = (''session_expired'', 401)"
| "APIError INVALID_PAYLOAD_SCHEMA = (''invalid_payload_schema'', 400)"

subsection \<open>util.py: JSON responses\<close>

text \<open>
  \<open>serialize_objectids\<close> is the \<open>default\<close> hook handed to \<open>json.dumps\<close>: an ObjectId
  becomes its string, a set becomes a list, anything else raises ValueError.
\<close>

fun serialize_objectids :: "pyval \<Rightarrow> py_error + pyval" where
  "serialize_objectids (PObjectId s) = Inr (PStr s)"
| "serialize_objectids (PSet xs) = Inr (PList xs)"
| "serialize_objectids v = Inl ValueError"

text \<open>The first exception of a list of results, or all the values.\<close>

fun sequence :: "('e + 'a) list \<Rightarrow> 'e + 'a list" where
  "sequence [] = Inr []"
| "sequence (Inl e # _) = Inl e"
| "sequence (Inr x # rs) = (case sequence rs of Inl e \<Rightarrow> Inl e | Inr xs \<Rightarrow> Inr (x # xs))"

text \<open>
  \<open>json_dumps(s, default=serialize_objectids)\<close>: the JSON document written for a value,
  kept as a value rather than as its text. JSON values are written as they are, lists and
  dicts element by element; a value that is not a JSON value goes through the hook
  (lemma \<open>json_dumps_default\<close> below) and its result is written in its place.
\<close>

fun json_dumps :: "pyval \<Rightarrow> py_error + pyval" where
  "json_dumps (PList xs) = map_sum id PList (sequence (map json_dumps xs))"
| "json_dumps (PDict kvs) =
     map_sum id PDict
       (sequence (map (\<lambda>kv. map_sum id (Pair (fst kv)) (json_dumps (snd kv))) kvs))"
| "json_dumps (PObjectId s) = Inr (PStr s)"
| "json_dumps (PSet xs) = map_sum id PList (sequence (map json_dumps xs))"
| "json_dumps (PObject s) = Inl ValueError"
| "json_dumps v = Inr v"

text \<open>
  \<open>json_response(di, **kwargs)\<close>: sanic's \<open>json\<close> writes the body at once with the given
  \<open>dumps\<close> and takes the status from \<open>kwargs\<close>, 200 when none is given.
\<close>

definition json_response :: "pyval \<Rightarrow> int option \<Rightarrow> py_error + response" where
  "json_response di status_kw =
     (case json_dumps di of
        Inl e \<Rightarrow> Inl e
      | Inr doc \<Rightarrow> Inr \<lparr>body = doc, status = (case status_kw of None \<Rightarrow> 200 | Some s \<Rightarrow> s)\<rparr>)"

text \<open>
  \<open>json_error(error, description, **additional)\<close>. A keyword named like one of the two
  positional parameters is refused by the call itself (TypeError). The dict literal
  \<open>{**additional, "error": ..., "description": ...}\<close> keeps the insertion order.
\<close>

definition json_error :: "string \<times> int \<Rightarrow> string \<Rightarrow> (string \<times> pyval) list \<Rightarrow> py_error + response" where
  "json_error error description additional =
     (if ''error'' \<in> set (map fst additional) \<or> ''description'' \<in> set (map fst additional)
      then Inl TypeError
      else json_response
             (PDict (AList.update ''description'' (PStr description)
                      (AList.update ''error'' (PStr (''err_ '' @ fst error)) additional)))
             (Some (snd error)))"

section \<open>Requests and their context\<close>

text \<open>
  Modelled from the spec: the package \<open>semoxy.models\<close> (User, Session,
  WebsocketTicket) and the managed server objects are not among the given sources. A
  session carries its opaque identifier, the owning user's id, its creation time and its
  absolute expiration time (spec, section 3); a ticket carries its token; of a managed
  server the guards read the running flag only.
\<close>

record session =
  sid :: string
  userId :: string
  creation :: int
  expiration :: int

record ticket =
  token :: string

record server =
  running :: bool

text \<open>
  \<open>req.ctx\<close>: what the middleware and the earlier guards resolved for this request. A
  user, session or server object is true in a boolean test, \<open>None\<close> is false.
\<close>

record 'u ctx =
  user :: "'u option"
  session :: "session option"
  server :: "server option"

text \<open>
  The request: the parsed JSON body (\<open>PNone\<close> when there is none), the headers by name,
  the origin address and the context.
\<close>

record 'u request =
  json :: pyval
  headers :: "string \<rightharpoonup> string"
  ip :: string
  ctx :: "'u ctx"

text \<open>
  A handler takes the request and the state of the world outside the request (the
  document store), and gives back a response or an exception, and the new state. A
  handler that is not called leaves the state as it was.
\<close>

type_synonym ('u, 'w) handler = "'u request \<Rightarrow> 'w \<Rightarrow> (py_error + response) \<times> 'w"

definition truthy :: "'a option \<Rightarrow> bool" where
  "truthy x = (x \<noteq> None)"

text \<open>\<open>v.keys()\<close>: only a dict has the attribute.\<close>

fun py_keys :: "pyval \<Rightarrow> py_error + string list" where
  "py_keys (PDict kvs) = Inr (map fst kvs)"
| "py_keys v = Inl AttributeError"

text \<open>\<open>v[k]\<close> for a string \<open>k\<close>: KeyError on a dict without the key, TypeError on any other value.\<close>

fun py_getitem :: "pyval \<Rightarrow> string \<Rightarrow> py_error + pyval" where
  "py_getitem (PDict kvs) k = (case map_of kvs k of None \<Rightarrow> Inl KeyError | Some v \<Rightarrow> Inr v)"
| "py_getitem v k = Inl TypeError"

text \<open>\<open>req.headers[k]\<close>: KeyError when the request has no such header.\<close>

definition headers_getitem :: "(string \<rightharpoonup> string) \<Rightarrow> string \<Rightarrow> py_error + string" where
  "headers_getitem h k = (case h k of None \<Rightarrow> Inl KeyError | Some v \<Rightarrow> Inr v)"

section \<open>util.py: the guards\<close>

text \<open>
  \<open>requires_server_online(online=True)\<close>. The argument is optional; \<open>req.ctx.server\<close> is
  there only after \<open>server_endpoint\<close> has put it (AttributeError otherwise).
\<close>

definition requires_server_online :: "bool option \<Rightarrow> ('u, 'w) handler \<Rightarrow> ('u, 'w) handler" where
  "requires_server_online online_arg f req w =
     (let online = (case online_arg of None \<Rightarrow> True | Some b \<Rightarrow> b) in
      case server (ctx req) of
        None \<Rightarrow> (Inl AttributeError, w)
      | Some srv \<Rightarrow>
          if online \<noteq> running srv
          then (json_error (APIError INVALID_SERVER_STATUS)
                  (''this endpoint requires the server to be ''
                     @ (if online then ''online'' else ''offline'')) [], w)
          else f req w)"



text \<open>
  \<open>requires_post_params(*json_keys)\<close>: the loop over the keys in the order they were
  given, leaving at the first one that is not among the payload's keys.
\<close>

fun requires_post_params :: "string list \<Rightarrow> ('u, 'w) handler \<Rightarrow> ('u, 'w) handler" where
  "requires_post_params [] f req w = f req w"
| "requires_post_params (prop # json_keys) f req w =
     (case py_keys (json req) of
        Inl e \<Rightarrow> (Inl e, w)
      | Inr ks \<Rightarrow>
          if prop \<notin> set ks
          then (json_error (APIError MISSING_VALUE) (''you need to specify '' @ prop)
                  [(''field'', PStr prop)], w)
          else requires_post_params json_keys f req w)"

text \<open>\<open>requires_login(logged_in=True)\<close>; the argument is optional.\<close>

definition requires_login :: "bool option \<Rightarrow> ('u, 'w) handler \<Rightarrow> ('u, 'w) handler" where
  "requires_login logged_in_arg f req w =
     (let logged_in = (case logged_in_arg of None \<Rightarrow> True | Some b \<Rightarrow> b) in
      if logged_in \<and> \<not> truthy (user (ctx req))
      then (json_error (APIError UNAUTHENTICATED)
              ''you need to be logged in to access this endpoint'' [], w)
      else if \<not> logged_in \<and> truthy (user (ctx req))
      then (json_error (APIError NO_PERMISSION)
              ''you can't use this endpoint while logged in'' [], w)
      else f req w)"

section \<open>endpoints/auth.py\<close>

text \<open>
  Modelled from the spec: \<open>json_res\<close>, which auth.py imports from util.py, is not defined
  in the util.py given. Every response is a JSON object with the status the handler
  names, 200 when it names none (spec, section 6); it is taken to be util.py's builder of
  JSON responses.
\<close>

definition json_res :: "pyval \<Rightarrow> int option \<Rightarrow> py_error + response" where
  "json_res di status_kw = json_response di status_kw"

text \<open>
  The operations of \<open>semoxy.models\<close> that the endpoints call are parameters: looking a
  user up by name and creating a session or a ticket go to the document store, checking
  a password reads the user. \<open>py_str\<close> is Python's \<open>str\<close> on a payload value.
\<close>

record ('u, 'w) models =
  fetch_by_name :: "pyval \<Rightarrow> 'w \<Rightarrow> 'u option"
  check_password :: "'u \<Rightarrow> string \<Rightarrow> bool"
  create_session :: "'u \<Rightarrow> 'w \<Rightarrow> session \<times> 'w"
  create_ticket :: "'u \<Rightarrow> string \<Rightarrow> string \<Rightarrow> 'w \<Rightarrow> ticket \<times> 'w"
  py_str :: "pyval \<Rightarrow> string"

definition wrong_credentials :: "py_error + response" where
  "wrong_credentials =
     json_res (PDict [(''error'', PStr ''Wrong Credentials''), (''status'', PInt 401),
                      (''description'', PStr ''either username or password are wrong'')])
       (Some 401)"

definition login_post :: "('u, 'w) models \<Rightarrow> ('u, 'w) handler" where
  "login_post M req w =
     (case py_getitem (json req) ''username'' of
        Inl e \<Rightarrow> (Inl e, w)
      | Inr name \<Rightarrow>
          (case fetch_by_name M name w of
             None \<Rightarrow> (wrong_credentials, w)
           | Some usr \<Rightarrow>
               (case py_getitem (json req) ''password'' of
                  Inl e \<Rightarrow> (Inl e, w)
                | Inr pw \<Rightarrow>
                    if check_password M usr (py_str M pw)
                    then (case create_session M usr w of
                            (sess, w') \<Rightarrow>
                              (json_res (PDict [(''success'', PStr ''logged in successfully''),
                                                (''data'', PDict [(''sessionId'', PStr (sid sess))])])
                                 None, w'))
                    else (wrong_credentials, w))))"

text \<open>The endpoint \<open>POST /account/login\<close>: the handler under its two decorators.\<close>

definition login_endpoint :: "('u, 'w) models \<Rightarrow> ('u, 'w) handler" where
  "login_endpoint M =
     requires_login (Some False) (requires_post_params [''username'', ''password''] (login_post M))"

text \<open>\<open>check_session\<close>, the endpoint \<open>GET /account/session\<close>. The user id is an ObjectId.\<close>

definition check_session :: "('u, 'w) handler" where
  "check_session req w =
     (let out = [(''loggedIn'', PBool (session (ctx req) \<noteq> None))] in
      (json_res
         (PDict (case session (ctx req) of
                   None \<Rightarrow> out
                 | Some sess \<Rightarrow>
                     AList.update ''userId'' (PObjectId (userId sess))
                       (AList.update ''expiration'' (PInt (expiration sess)) out)))
         None, w))"

text \<open>
  \<open>open_ticket\<close>: the method is looked up on \<open>req.ctx.user\<close> first, then the arguments
  are evaluated; \<open>x or "unknown agent"\<close> takes the default when \<open>x\<close> is the empty string.
\<close>

definition open_ticket :: "('u, 'w) models \<Rightarrow> ('u, 'w) handler" where
  "open_ticket M req w =
     (case user (ctx req) of
        None \<Rightarrow> (Inl AttributeError, w)
      | Some usr \<Rightarrow>
          (case headers_getitem (headers req) ''User-Agent'' of
             Inl e \<Rightarrow> (Inl e, w)
           | Inr agent \<Rightarrow>
               (case create_ticket M usr (ip req) (if agent \<noteq> [] then agent else ''unknown agent'') w of
                  (tkt, w') \<Rightarrow>
                    (json_res (PDict [(''success'', PStr ''ticket created''),
                                      (''data'', PDict [(''token'', PStr (token tkt))])])
                       None, w'))))"

text \<open>The endpoint \<open>GET /account/ticket\<close>.\<close>

definition open_ticket_endpoint :: "('u, 'w) models \<Rightarrow> ('u, 'w) handler" where
  "open_ticket_endpoint M = requires_login None (open_ticket M)"

subsection \<open>get_new_ticket\<close>

text \<open>
  The document store: a collection is a list of documents, a document a dict.
  \<open>find_one(query)\<close> gives the first document that has every field of the query with
  the query's value, or \<open>None\<close>; in the loop's test \<open>None\<close> and an empty dict are false.
\<close>

type_synonym document = "(string \<times> pyval) list"

type_synonym db = "string \<Rightarrow> document list"

definition find_one :: "document list \<Rightarrow> document \<Rightarrow> document option" where
  "find_one coll query = find (\<lambda>doc. list_all (\<lambda>kv. map_of doc (fst kv) = Some (snd kv)) query) coll"

definition truthy_doc :: "document option \<Rightarrow> bool" where
  "truthy_doc r = (case r of None \<Rightarrow> False | Some doc \<Rightarrow> doc \<noteq> [])"

text \<open>
  \<open>secrets.token_urlsafe(24)\<close>: the source of randomness is the sequence \<open>gen\<close> of the
  tokens it will hand out; its state is the number of tokens handed out so far.
\<close>

definition token_urlsafe :: "(nat \<Rightarrow> string) \<Rightarrow> nat \<Rightarrow> string \<times> nat" where
  "token_urlsafe gen n = (gen n, Suc n)"

text \<open>
  The \<open>while\<close> loop of \<open>get_new_ticket\<close>, which has no bound: \<open>None\<close> is the loop that
  never ends.
\<close>

partial_function (option) get_new_ticket_while ::
  "db \<Rightarrow> (nat \<Rightarrow> string) \<Rightarrow> string \<Rightarrow> nat \<Rightarrow> (string \<times> nat) option" where
  "get_new_ticket_while d gen tkt n =
     (if truthy_doc (find_one (d ''wsticket'') [(''ticket'', PStr tkt)])
      then (case token_urlsafe gen n of (tkt', n') \<Rightarrow> get_new_ticket_while d gen tkt' n')
      else Some (tkt, n))"

text \<open>
  \<open>get_new_ticket(db)\<close>: the ticket, and the state of the source of randomness after it
  (\<open>n\<close> before, so the call drew that many tokens more).
\<close>

definition get_new_ticket :: "db \<Rightarrow> (nat \<Rightarrow> string) \<Rightarrow> nat \<Rightarrow> (string \<times> nat) option" where
  "get_new_ticket d gen n =
     (case token_urlsafe gen n of (tkt, n') \<Rightarrow> get_new_ticket_while d gen tkt n')"

text \<open>
  A token is in the store when a document of the collection \<open>wsticket\<close> has it as its
  \<open>ticket\<close> field: what the loop's query looks for.
\<close>

definition ticket_in_store :: "db \<Rightarrow> string \<Rightarrow> bool" where
  "ticket_in_store d tkt = (\<exists>doc \<in> set (d ''wsticket''). map_of doc ''ticket'' = Some (PStr tkt))"

section \<open>Example handler and requests\<close>

text \<open>A handler that counts its calls in the state, and requests to try the guards on.\<close>

definition example_handler :: "(string, nat) handler" where
  "example_handler req w = (Inr \<lparr>body = PStr ''handled'', status = 200\<rparr>, Suc w)"

definition example_request :: "string option \<Rightarrow> pyval \<Rightarrow> string request" where
  "example_request usr payload =
     \<lparr>json = payload, headers = Map.empty, ip = ''203.0.113.7'',
      ctx = \<lparr>user = usr, session = None, server = None\<rparr>\<rparr>"

definition example_server_request :: "bool \<Rightarrow> string request" where
  "example_server_request flag =
     \<lparr>json = PNone, headers = Map.empty, ip = ''203.0.113.7'',
      ctx = \<lparr>user = Some ''root'', session = None, server = Some \<lparr>running = flag\<rparr>\<rparr>\<rparr>"




definition example_models :: "(string, nat) models" where
  "example_models =
     \<lparr>fetch_by_name = (\<lambda>name w. if name = PStr ''root'' then Some ''root'' else None),
      check_password = (\<lambda>usr pw. pw = ''hunter2''),
      create_session = (\<lambda>usr w. (\<lparr>sid = ''5f1d7f0a'', userId = usr, creation = int w,
                                     expiration = int w + 7200\<rparr>, Suc w)),
      create_ticket = (\<lambda>usr addr agent w. (\<lparr>token = agent @ ''@'' @ addr\<rparr>, Suc w)),
      py_str = (\<lambda>v. case v of PStr s \<Rightarrow> s | _ \<Rightarrow> ''?'')\<rparr>"

definition example_session_request :: "session option \<Rightarrow> string request" where
  "example_session_request sess =
     \<lparr>json = PNone, headers = Map.empty, ip = ''203.0.113.7'',
      ctx = \<lparr>user = map_option userId sess, session = sess, server = None\<rparr>\<rparr>"

definition example_agent_request :: "string option \<Rightarrow> string request" where
  "example_agent_request agent =
     \<lparr>json = PNone, headers = (\<lambda>h. if h = ''User-Agent'' then agent else None),
      ip = ''203.0.113.7'',
      ctx = \<lparr>user = Some ''root'', session = None, server = None\<rparr>\<rparr>"

definition example_db :: db where
  "example_db coll =
     (if coll = ''wsticket''
      then [[(''ticket'', PStr ''tok0''), (''ip'', PStr ''203.0.113.7''), (''browser'', PStr ''curl'')]]
      else [])"

definition example_gen :: "nat \<Rightarrow> string" where
  "example_gen i = (if i = 0 then ''tok0'' else ''tok1'')"

section \<open>Helper lemmas on JSON encoding\<close>

lemma sequence_append:
  "sequence (xs @ ys) =
     (case sequence xs of
        Inl e \<Rightarrow> Inl e
      | Inr as \<Rightarrow> (case sequence ys of Inl e \<Rightarrow> Inl e | Inr bs \<Rightarrow> Inr (as @ bs)))"
  by (induction xs rule: sequence.induct) (auto split: sum.splits)

lemma update_fresh: "k \<notin> set (map fst al) \<Longrightarrow> AList.update k v al = al @ [(k, v)]"
  by (induction al) auto

lemma json_dumps_default:
  "json_dumps (PObjectId s) = serialize_objectids (PObjectId s)"
  "json_dumps (PSet xs) = (case serialize_objectids (PSet xs) of Inl e \<Rightarrow> Inl e | Inr v \<Rightarrow> json_dumps v)"
  "json_dumps (PObject s) = serialize_objectids (PObject s)"
  by simp_all

lemma json_dumps_dict_append:
  "json_dumps (PDict (kvs @ kvs')) =
     (case json_dumps (PDict kvs) of
        Inl e \<Rightarrow> Inl e
      | Inr d \<Rightarrow> (case json_dumps (PDict kvs') of
                   Inl e \<Rightarrow> Inl e
                 | Inr d' \<Rightarrow> (case (d, d') of (PDict a, PDict b) \<Rightarrow> Inr (PDict (a @ b)) | _ \<Rightarrow> Inl ValueError)))"
  by (auto simp: sequence_append split: sum.splits)

lemma json_error_plain:
  "json_error (c, s) d [] =
     Inr \<lparr>body = PDict [(''error'', PStr (''err_ '' @ c)), (''description'', PStr d)], status = s\<rparr>"
  by (simp add: json_error_def json_response_def)

lemma json_error_field:
  "json_error (c, s) d [(''field'', PStr p)] =
     Inr \<lparr>body = PDict [(''field'', PStr p), (''error'', PStr (''err_ '' @ c)),
                       (''description'', PStr d)], status = s\<rparr>"
  by (simp add: json_error_def json_response_def)







section \<open>Helper lemmas on the endpoints\<close>

lemma wrong_credentials_response:
  "wrong_credentials =
     Inr \<lparr>body = PDict [(''error'', PStr ''Wrong Credentials''), (''status'', PInt 401),
                       (''description'', PStr ''either username or password are wrong'')],
          status = 401\<rparr>"
  by (simp add: wrong_credentials_def json_res_def json_response_def)

lemma login_endpoint_reaches_handler:
  assumes "user (ctx req) = None" and "json req = PDict kvs"
    and "''username'' \<in> set (map fst kvs)" and "''password'' \<in> set (map fst kvs)"
  shows "login_endpoint M req w = login_post M req w"
  using assms by (simp add: login_endpoint_def requires_login_def truthy_def)

section \<open>Helper lemmas on the ticket loop\<close>

lemma find_one_ticket:
  "truthy_doc (find_one (d ''wsticket'') [(''ticket'', PStr tkt)]) = ticket_in_store d tkt"
proof -
  let ?P = "\<lambda>doc. map_of doc ''ticket'' = Some (PStr tkt)"
  have "truthy_doc (find ?P coll) = (\<exists>doc \<in> set coll. ?P doc)" for coll
    by (induction coll) (auto simp: truthy_doc_def)
  then show ?thesis
    by (simp add: find_one_def ticket_in_store_def)
qed

lemma while_fresh:
  "\<not> ticket_in_store d tkt \<Longrightarrow> get_new_ticket_while d gen tkt n = Some (tkt, n)"
  by (subst get_new_ticket_while.simps) (simp add: find_one_ticket)

lemma while_collision:
  "ticket_in_store d tkt \<Longrightarrow>
     get_new_ticket_while d gen tkt n = get_new_ticket_while d gen (gen n) (Suc n)"
  by (subst get_new_ticket_while.simps) (simp add: find_one_ticket token_urlsafe_def)

lemma while_first_fresh:
  assumes "\<not> ticket_in_store d (gen (n + k))"
    and "\<forall>j<k. ticket_in_store d (gen (n + j))"
  shows "get_new_ticket_while d gen (gen n) (Suc n) = Some (gen (n + k), Suc (n + k))"
  using assms
proof (induction k arbitrary: n)
  case 0
  then show ?case by (simp add: while_fresh)
next
  case (Suc k)
  from Suc.prems(2) have c: "ticket_in_store d (gen n)" by force
  have "\<not> ticket_in_store d (gen (Suc n + k))" using Suc.prems(1) by simp
  moreover have "\<forall>j<k. ticket_in_store d (gen (Suc n + j))"
  proof (intro allI impI)
    fix j assume "j < k"
    then have "Suc j < Suc k" by simp
    with Suc.prems(2) have "ticket_in_store d (gen (n + Suc j))" by blast
    then show "ticket_in_store d (gen (Suc n + j))" by simp
  qed
  ultimately have "get_new_ticket_while d gen (gen (Suc n)) (Suc (Suc n)) =
      Some (gen (Suc n + k), Suc (Suc n + k))"
    by (rule Suc.IH)
  with c show ?case by (simp add: while_collision)
qed

lemma while_some_not_all_colliding:
  assumes "get_new_ticket_while d gen tkt m = Some y"
  shows "\<not> (ticket_in_store d tkt \<and> (\<forall>k. ticket_in_store d (gen (m + k))))"
proof (rule get_new_ticket_while.raw_induct
    [where P = "\<lambda>d gen tkt m y. \<not> (ticket_in_store d tkt \<and> (\<forall>k. ticket_in_store d (gen (m + k))))",
      OF _ assms], goal_cases)
  case (1 f d gen tkt n y)
  show ?case
  proof
    assume a: "ticket_in_store d tkt \<and> (\<forall>k. ticket_in_store d (gen (n + k)))"
    with 1(2) have r: "f d gen (gen n) (Suc n) = Some y"
      by (simp add: find_one_ticket token_urlsafe_def)
    from a have "ticket_in_store d (gen (n + 0))" by blast
    then have h: "ticket_in_store d (gen n)" by simp
    have "\<forall>k. ticket_in_store d (gen (Suc n + k))"
    proof
      fix k
      from a have "ticket_in_store d (gen (n + Suc k))" by blast
      then show "ticket_in_store d (gen (Suc n + k))" by simp
    qed
    with h 1(1) [OF r] show False by blast
  qed
qed

lemma get_new_ticket_diverges:
  assumes "\<forall>k. ticket_in_store d (gen (n + k))"
  shows "get_new_ticket d gen n = None"
proof (rule ccontr)
  assume "get_new_ticket d gen n \<noteq> None"
  then obtain y where y: "get_new_ticket_while d gen (gen n) (Suc n) = Some y"
    by (auto simp: get_new_ticket_def token_urlsafe_def)
  from assms have "ticket_in_store d (gen (n + 0))" by blast
  then have h: "ticket_in_store d (gen n)" by simp
  have "\<forall>k. ticket_in_store d (gen (Suc n + k))"
  proof
    fix k
    from assms have "ticket_in_store d (gen (n + Suc k))" by blast
    then show "ticket_in_store d (gen (Suc n + k))" by simp
  qed
  with h while_some_not_all_colliding [OF y] show False by blast
qed

lemma get_new_ticket_first_fresh:
  assumes "\<not> ticket_in_store d (gen (n + k))"
    and "\<forall>j<k. ticket_in_store d (gen (n + j))"
  shows "get_new_ticket d gen n = Some (gen (n + k), Suc (n + k))"
  using while_first_fresh [OF assms] by (simp add: get_new_ticket_def token_urlsafe_def)

lemma get_new_ticket_result_fresh:
  assumes "get_new_ticket d gen n = Some (tkt, m)"
  shows "\<not> ticket_in_store d tkt"
proof -
  have "\<exists>k. \<not> ticket_in_store d (gen (n + k))"
    using assms get_new_ticket_diverges [of d gen n] by auto
  then obtain k where k: "\<not> ticket_in_store d (gen (n + k))"
    and least: "\<forall>j<k. ticket_in_store d (gen (n + j))"
    using exists_least_iff [of "\<lambda>k. \<not> ticket_in_store d (gen (n + k))"] by auto
  from get_new_ticket_first_fresh [OF k least] assms have "tkt = gen (n + k)" by simp
  with k show ?thesis by simp
qed

section \<open>The error envelope\<close>

text \<open>
  C3 (as amended). For every error kind, every description and every set of extra fields
  that has no field named \<open>error\<close> or \<open>description\<close> and whose values can be written as
  JSON, \<open>json_error\<close> raises nothing and yields the envelope made of the extra fields as
  written, then \<open>error\<close>, which is the string \<open>err_ \<close> followed by the kind's code, then
  \<open>description\<close>, with the kind's HTTP status.
\<close>

theorem json_error_envelope:
  assumes "''error'' \<notin> set (map fst extra)"
    and "''description'' \<notin> set (map fst extra)"
    and "json_dumps (PDict extra) = Inr (PDict extra')"
  shows "json_error (APIError k) d extra =
           Inr \<lparr>body = PDict (extra' @ [(''error'', PStr (''err_ '' @ fst (APIError k))),
                                       (''description'', PStr d)]),
                status = snd (APIError k)\<rparr>"
proof -
  let ?e = "(''error'', PStr (''err_ '' @ fst (APIError k)))"
  let ?d = "(''description'', PStr d)"
  have upd: "AList.update ''description'' (PStr d) (AList.update ''error'' (snd ?e) extra)
               = extra @ [?e, ?d]"
    using assms(1,2) by (simp add: update_fresh)
  have tail: "json_dumps (PDict [?e, ?d]) = Inr (PDict [?e, ?d])"
    by simp
  have "json_dumps (PDict (extra @ [?e, ?d])) = Inr (PDict (extra' @ [?e, ?d]))"
    unfolding json_dumps_dict_append assms(3) tail by simp
  with upd assms(1,2) show ?thesis
    by (simp add: json_error_def json_response_def)
qed

theorem json_error_envelope_witness:
  "json_error (APIError MISSING_VALUE) ''you need to specify a'' [(''field'', PStr ''a'')] =
     Inr \<lparr>body = PDict [(''field'', PStr ''a''), (''error'', PStr ''err_ missing_value''),
                       (''description'', PStr ''you need to specify a'')],
          status = 400\<rparr>"
  using json_error_envelope [of "[(''field'', PStr ''a'')]" "[(''field'', PStr ''a'')]"
      MISSING_VALUE "''you need to specify a''"]
  by simp

theorem json_error_code_counterexample:
  "json_error (APIError MISSING_VALUE) ''d'' [] =
     Inr \<lparr>body = PDict [(''error'', PStr ''err_ missing_value''), (''description'', PStr ''d'')],
          status = 400\<rparr>
   \<and> ''err_ missing_value'' \<noteq> fst (APIError MISSING_VALUE)
   \<and> json_error (APIError UNKNOWN) ''d'' [(''cause'', PObject ''bytes'')] = Inl ValueError"
  by (simp add: json_error_def json_response_def)

section \<open>The login-state guard\<close>

text \<open>
  C7. For every request, \<open>requires_login\<close> with no argument is \<open>requires_login\<close> with
  \<open>True\<close>; when no user is resolved, the guard expecting a login answers with the
  UNAUTHENTICATED error (status 401) and leaves the state as it was, and the guard
  expecting no login calls the handler; when a user is resolved, the guard expecting no
  login answers with the NO_PERMISSION error (status 403), and the guard expecting a login
  calls the handler.
\<close>

theorem requires_login_guard:
  "requires_login None f req w = requires_login (Some True) f req w
   \<and> (user (ctx req) = None \<longrightarrow>
        requires_login (Some True) f req w =
          (json_error (APIError UNAUTHENTICATED)
             ''you need to be logged in to access this endpoint'' [], w)
        \<and> requires_login (Some False) f req w = f req w)
   \<and> (user (ctx req) \<noteq> None \<longrightarrow>
        requires_login (Some False) f req w =
          (json_error (APIError NO_PERMISSION)
             ''you can't use this endpoint while logged in'' [], w)
        \<and> requires_login (Some True) f req w = f req w)
   \<and> json_error (APIError UNAUTHENTICATED) ''you need to be logged in to access this endpoint'' [] =
        Inr \<lparr>body = PDict [(''error'', PStr ''err_ unauthenticated''),
                          (''description'', PStr ''you need to be logged in to access this endpoint'')],
             status = 401\<rparr>
   \<and> json_error (APIError NO_PERMISSION) ''you can't use this endpoint while logged in'' [] =
        Inr \<lparr>body = PDict [(''error'', PStr ''err_ no_permission''),
                          (''description'', PStr ''you can't use this endpoint while logged in'')],
             status = 403\<rparr>"
  by (simp add: requires_login_def truthy_def json_error_plain)

theorem requires_login_guard_witness:
  "requires_login None example_handler (example_request None PNone) 0 =
     (Inr \<lparr>body = PDict [(''error'', PStr ''err_ unauthenticated''),
                        (''description'', PStr ''you need to be logged in to access this endpoint'')],
           status = 401\<rparr>, 0)
   \<and> requires_login (Some False) example_handler (example_request None PNone) 0 =
       (Inr \<lparr>body = PStr ''handled'', status = 200\<rparr>, 1)
   \<and> requires_login (Some False) example_handler (example_request (Some ''root'') PNone) 0 =
       (Inr \<lparr>body = PDict [(''error'', PStr ''err_ no_permission''),
                          (''description'', PStr ''you can't use this endpoint while logged in'')],
             status = 403\<rparr>, 0)
   \<and> requires_login None example_handler (example_request (Some ''root'') PNone) 0 =
       (Inr \<lparr>body = PStr ''handled'', status = 200\<rparr>, 1)"
  using requires_login_guard [of example_handler "example_request None PNone" 0]
    requires_login_guard [of example_handler "example_request (Some ''root'') PNone" 0]
  by (simp add: example_request_def example_handler_def)

section \<open>The resource-state guard\<close>

text \<open>
  C8. For every request whose context carries a resolved server,
  \<open>requires_server_online expected\<close> answers with the INVALID_SERVER_STATUS error (status
  423) when the server's running flag differs from \<open>expected\<close> and calls the handler when
  it equals \<open>expected\<close>; the same request with the flag set to \<open>expected\<close> reaches the
  handler. With no argument the guard expects the server to be online.
\<close>

theorem requires_server_online_guard:
  assumes "server (ctx req) = Some srv"
  shows "requires_server_online None f req w = requires_server_online (Some True) f req w
    \<and> requires_server_online (Some expected) f req w =
        (if running srv \<noteq> expected
         then (json_error (APIError INVALID_SERVER_STATUS)
                 (''this endpoint requires the server to be ''
                    @ (if expected then ''online'' else ''offline'')) [], w)
         else f req w)
    \<and> json_error (APIError INVALID_SERVER_STATUS)
          (''this endpoint requires the server to be '' @ (if expected then ''online'' else ''offline'')) [] =
        Inr \<lparr>body = PDict [(''error'', PStr ''err_ invalid_server_status''),
                          (''description'', PStr (''this endpoint requires the server to be ''
                              @ (if expected then ''online'' else ''offline'')))],
             status = 423\<rparr>
    \<and> requires_server_online (Some expected) f
          (req\<lparr>ctx := (ctx req)\<lparr>server := Some (srv\<lparr>running := expected\<rparr>)\<rparr>\<rparr>) w =
        f (req\<lparr>ctx := (ctx req)\<lparr>server := Some (srv\<lparr>running := expected\<rparr>)\<rparr>\<rparr>) w"
  using assms by (auto simp: requires_server_online_def json_error_plain)

theorem requires_server_online_guard_witness:
  "requires_server_online (Some True) example_handler (example_server_request False) 0 =
     (Inr \<lparr>body = PDict [(''error'', PStr ''err_ invalid_server_status''),
                        (''description'', PStr ''this endpoint requires the server to be online'')],
           status = 423\<rparr>, 0)
   \<and> requires_server_online (Some True) example_handler (example_server_request True) 0 =
       (Inr \<lparr>body = PStr ''handled'', status = 200\<rparr>, 1)"
proof -
  have srv: "server (ctx (example_server_request False)) = Some \<lparr>running = False\<rparr>"
    by (simp add: example_server_request_def)
  have flip: "(example_server_request False)
                \<lparr>ctx := (ctx (example_server_request False))
                   \<lparr>server := Some (\<lparr>running = False\<rparr>\<lparr>running := True\<rparr>)\<rparr>\<rparr>
              = example_server_request True"
    by (simp add: example_server_request_def)
  from requires_server_online_guard [OF srv, of example_handler 0 True]
  show ?thesis
    unfolding flip by (simp add: json_error_plain example_handler_def)
qed

section \<open>The required-fields guard\<close>

text \<open>
  C6. For every list of declared keys and every payload that is a JSON object: when every
  declared key is among the payload's keys, \<open>requires_post_params\<close> calls the handler on
  the request as it is; when \<open>k\<close> is the first declared key that is absent (all the keys
  declared before it are present), it answers with the MISSING_VALUE error (status 400)
  whose one \<open>field\<close> entry names \<open>k\<close>, and leaves the state as it was.
\<close>

theorem requires_post_params_first_missing:
  assumes "json req = PDict kvs"
  shows "(set json_keys \<subseteq> set (map fst kvs) \<longrightarrow> requires_post_params json_keys f req w = f req w)
    \<and> (\<forall>pre k post. json_keys = pre @ k # post \<and> set pre \<subseteq> set (map fst kvs) \<and> k \<notin> set (map fst kvs) \<longrightarrow>
          requires_post_params json_keys f req w =
            (json_error (APIError MISSING_VALUE) (''you need to specify '' @ k) [(''field'', PStr k)], w)
          \<and> json_error (APIError MISSING_VALUE) (''you need to specify '' @ k) [(''field'', PStr k)] =
              Inr \<lparr>body = PDict [(''field'', PStr k), (''error'', PStr ''err_ missing_value''),
                                (''description'', PStr (''you need to specify '' @ k))],
                   status = 400\<rparr>)"
proof (intro conjI allI impI)
  assume "set json_keys \<subseteq> set (map fst kvs)"
  then show "requires_post_params json_keys f req w = f req w"
    using assms by (induction json_keys) auto
next
  fix pre k post
  assume h: "json_keys = pre @ k # post \<and> set pre \<subseteq> set (map fst kvs) \<and> k \<notin> set (map fst kvs)"
  then have "set pre \<subseteq> set (map fst kvs)" "k \<notin> set (map fst kvs)" by simp_all
  then have "requires_post_params (pre @ k # post) f req w =
            (json_error (APIError MISSING_VALUE) (''you need to specify '' @ k) [(''field'', PStr k)], w)"
    using assms by (induction pre) auto
  with h show "requires_post_params json_keys f req w =
            (json_error (APIError MISSING_VALUE) (''you need to specify '' @ k) [(''field'', PStr k)], w)"
    by simp
next
  fix pre k post
  show "json_error (APIError MISSING_VALUE) (''you need to specify '' @ k) [(''field'', PStr k)] =
              Inr \<lparr>body = PDict [(''field'', PStr k), (''error'', PStr ''err_ missing_value''),
                                (''description'', PStr (''you need to specify '' @ k))],
                   status = 400\<rparr>"
    by (simp add: json_error_field)
qed

theorem requires_post_params_first_missing_witness:
  "requires_post_params [''username'', ''password'', ''token''] example_handler
     (example_request None (PDict [(''username'', PStr ''root'')])) 0 =
     (Inr \<lparr>body = PDict [(''field'', PStr ''password''), (''error'', PStr ''err_ missing_value''),
                        (''description'', PStr ''you need to specify password'')],
           status = 400\<rparr>, 0)
   \<and> requires_post_params [''username''] example_handler
       (example_request None (PDict [(''username'', PStr ''root'')])) 0 =
       (Inr \<lparr>body = PStr ''handled'', status = 200\<rparr>, 1)"
proof -
  have j: "json (example_request None (PDict [(''username'', PStr ''root'')])) =
             PDict [(''username'', PStr ''root'')]"
    by (simp add: example_request_def)
  note t = requires_post_params_first_missing [OF j]
  have a: "requires_post_params [''username'', ''password'', ''token''] example_handler
     (example_request None (PDict [(''username'', PStr ''root'')])) 0 =
     (Inr \<lparr>body = PDict [(''field'', PStr ''password''), (''error'', PStr ''err_ missing_value''),
                        (''description'', PStr ''you need to specify password'')],
           status = 400\<rparr>, 0)"
    using t [of "[''username'', ''password'', ''token'']" example_handler 0,
        THEN conjunct2, rule_format, of "[''username'']" "''password''" "[''token'']"]
    by simp
  have b: "requires_post_params [''username''] example_handler
       (example_request None (PDict [(''username'', PStr ''root'')])) 0 =
       (Inr \<lparr>body = PStr ''handled'', status = 200\<rparr>, 1)"
    using t [of "[''username'']" example_handler 0, THEN conjunct1]
    by (simp add: example_handler_def)
  from a b show ?thesis by simp
qed

section \<open>The guards that read the payload\<close>




section \<open>The order of the guards\<close>

text \<open>
  C1. For every handler under \<open>requires_login\<close> (no argument) outside and
  \<open>requires_post_params "a" "b"\<close> inside, as the decorators are stacked in auth.py: a
  request with no resolved user gets the UNAUTHENTICATED error (status 401) whatever its
  payload holds, so also when both fields are absent, and never a MISSING_VALUE error; a
  request with a resolved user whose JSON object lacks \<open>a\<close> or \<open>b\<close> gets the
  MISSING_VALUE error for an absent field. In both cases the answer is the same for every
  handler and the state is left as it was: the handler is not called.
\<close>

theorem guard_chain_login_first:
  "(user (ctx req) = None \<longrightarrow>
      requires_login None (requires_post_params [''a'', ''b''] f) req w =
        (json_error (APIError UNAUTHENTICATED)
           ''you need to be logged in to access this endpoint'' [], w)
      \<and> json_error (APIError UNAUTHENTICATED)
           ''you need to be logged in to access this endpoint'' [] =
          Inr \<lparr>body = PDict [(''error'', PStr ''err_ unauthenticated''),
                            (''description'', PStr ''you need to be logged in to access this endpoint'')],
               status = 401\<rparr>
      \<and> (\<forall>k. fst (requires_login None (requires_post_params [''a'', ''b''] f) req w) \<noteq>
               json_error (APIError MISSING_VALUE) (''you need to specify '' @ k) [(''field'', PStr k)]))
   \<and> (user (ctx req) \<noteq> None \<and> json req = PDict kvs
        \<and> (''a'' \<notin> set (map fst kvs) \<or> ''b'' \<notin> set (map fst kvs)) \<longrightarrow>
        (\<exists>k. k \<in> {''a'', ''b''} \<and> k \<notin> set (map fst kvs)
          \<and> requires_login None (requires_post_params [''a'', ''b''] f) req w =
              (json_error (APIError MISSING_VALUE) (''you need to specify '' @ k) [(''field'', PStr k)], w)))"
  by (auto simp: requires_login_def truthy_def json_error_plain json_error_field)

theorem guard_chain_login_first_witness:
  "requires_login None (requires_post_params [''a'', ''b''] example_handler)
      (example_request None (PDict [(''c'', PInt 1)])) 0 =
     (Inr \<lparr>body = PDict [(''error'', PStr ''err_ unauthenticated''),
                        (''description'', PStr ''you need to be logged in to access this endpoint'')],
           status = 401\<rparr>, 0)"
  using guard_chain_login_first [of "example_request None (PDict [(''c'', PInt 1)])" example_handler 0 "[(''c'', PInt 1)]"]
  by (simp add: example_request_def)

text \<open>
  The order matters: with the two guards stacked the other way round, the same request
  (no user, a JSON object without \<open>a\<close>) gets the MISSING_VALUE error.
\<close>

lemma guard_chain_other_order:
  assumes "json req = PDict kvs" and "''a'' \<notin> set (map fst kvs)"
  shows "requires_post_params [''a'', ''b''] (requires_login None f) req w =
           (json_error (APIError MISSING_VALUE) ''you need to specify a'' [(''field'', PStr ''a'')], w)"
  using assms by simp

section \<open>The login endpoint\<close>

text \<open>
  C2. For every pair of requests to \<open>POST /account/login\<close> from clients that are not
  logged in, both carrying a username and a password, one naming a user the store does
  not know and one naming a known user with a password that does not match: the two
  responses are equal, the wrong-credentials body with HTTP status 401, and neither
  request changes the state.
\<close>

theorem login_failures_indistinguishable:
  assumes "user (ctx req1) = None" and "user (ctx req2) = None"
    and "json req1 = PDict kvs1" and "json req2 = PDict kvs2"
    and "map_of kvs1 ''username'' = Some name1" and "''password'' \<in> set (map fst kvs1)"
    and "map_of kvs2 ''username'' = Some name2" and "map_of kvs2 ''password'' = Some pw2"
    and "fetch_by_name M name1 w1 = None"
    and "fetch_by_name M name2 w2 = Some usr"
    and "\<not> check_password M usr (py_str M pw2)"
  shows "fst (login_endpoint M req1 w1) = fst (login_endpoint M req2 w2)
    \<and> login_endpoint M req1 w1 =
        (Inr \<lparr>body = PDict [(''error'', PStr ''Wrong Credentials''), (''status'', PInt 401),
                           (''description'', PStr ''either username or password are wrong'')],
              status = 401\<rparr>, w1)
    \<and> login_endpoint M req2 w2 =
        (Inr \<lparr>body = PDict [(''error'', PStr ''Wrong Credentials''), (''status'', PInt 401),
                           (''description'', PStr ''either username or password are wrong'')],
              status = 401\<rparr>, w2)"
proof -
  have k1: "''username'' \<in> set (map fst kvs1)"
    using assms(5) by (metis map_of_SomeD fst_conv image_eqI set_map)
  have k2: "''username'' \<in> set (map fst kvs2)" "''password'' \<in> set (map fst kvs2)"
    using assms(7,8) by (metis map_of_SomeD fst_conv image_eqI set_map)+
  have e1: "login_endpoint M req1 w1 = login_post M req1 w1"
    using assms(1,3) k1 assms(6) by (rule login_endpoint_reaches_handler)
  have e2: "login_endpoint M req2 w2 = login_post M req2 w2"
    using assms(2,4) k2 by (rule login_endpoint_reaches_handler)
  have p1: "login_post M req1 w1 = (wrong_credentials, w1)"
    using assms(3,5,9) by (simp add: login_post_def)
  have p2: "login_post M req2 w2 = (wrong_credentials, w2)"
    using assms(4,7,8,10,11) by (simp add: login_post_def)
  show ?thesis
    by (simp add: e1 e2 p1 p2 wrong_credentials_response)
qed

theorem login_failures_indistinguishable_witness:
  "login_endpoint example_models
      (example_request None (PDict [(''username'', PStr ''nobody''), (''password'', PStr ''hunter2'')])) 0 =
     (Inr \<lparr>body = PDict [(''error'', PStr ''Wrong Credentials''), (''status'', PInt 401),
                        (''description'', PStr ''either username or password are wrong'')],
           status = 401\<rparr>, 0)
   \<and> login_endpoint example_models
       (example_request None (PDict [(''username'', PStr ''root''), (''password'', PStr ''letmein'')])) 0 =
       (Inr \<lparr>body = PDict [(''error'', PStr ''Wrong Credentials''), (''status'', PInt 401),
                          (''description'', PStr ''either username or password are wrong'')],
             status = 401\<rparr>, 0)"
  using login_failures_indistinguishable
    [of "example_request None (PDict [(''username'', PStr ''nobody''), (''password'', PStr ''hunter2'')])"
        "example_request None (PDict [(''username'', PStr ''root''), (''password'', PStr ''letmein'')])"
        "[(''username'', PStr ''nobody''), (''password'', PStr ''hunter2'')]"
        "[(''username'', PStr ''root''), (''password'', PStr ''letmein'')]"
        "PStr ''nobody''" "PStr ''root''" "PStr ''letmein''" example_models 0 0 "''root''"]
  by (simp add: example_request_def example_models_def)

section \<open>Session introspection\<close>

text \<open>
  C9. For every request, with or without a resolved session, \<open>GET /account/session\<close>
  answers with status 200; the body is \<open>loggedIn: false\<close> alone when no session is
  resolved, and \<open>loggedIn: true\<close> with the session's expiration and owning user id, and
  nothing else, when one is. The response is the same whatever the session's id and the
  resolved user are: neither the session id nor any data of the user is in it.
\<close>

theorem check_session_response:
  "check_session req w =
     (Inr \<lparr>body = PDict (case session (ctx req) of
                          None \<Rightarrow> [(''loggedIn'', PBool False)]
                        | Some sess \<Rightarrow> [(''loggedIn'', PBool True),
                                        (''expiration'', PInt (expiration sess)),
                                        (''userId'', PStr (userId sess))]),
           status = 200\<rparr>, w)
   \<and> fst (check_session
            (req\<lparr>ctx := (ctx req)\<lparr>user := usr',
                                  session := map_option (\<lambda>sess. sess\<lparr>sid := sid'\<rparr>) (session (ctx req))\<rparr>\<rparr>)
            w') =
       fst (check_session req w)"
  by (cases "session (ctx req)")
     (simp_all add: check_session_def json_res_def json_response_def)

theorem check_session_response_witness:
  "check_session (example_session_request None) (0::nat) =
     (Inr \<lparr>body = PDict [(''loggedIn'', PBool False)], status = 200\<rparr>, 0)
   \<and> check_session
       (example_session_request
          (Some \<lparr>sid = ''5f1d7f0a'', userId = ''root'', creation = 100, expiration = 7300\<rparr>)) (0::nat) =
       (Inr \<lparr>body = PDict [(''loggedIn'', PBool True), (''expiration'', PInt 7300),
                          (''userId'', PStr ''root'')], status = 200\<rparr>, 0)"
  using check_session_response [of "example_session_request None" "0::nat", THEN conjunct1]
    check_session_response [of "example_session_request
          (Some \<lparr>sid = ''5f1d7f0a'', userId = ''root'', creation = 100, expiration = 7300\<rparr>)" "0::nat",
      THEN conjunct1]
  by (simp add: example_session_request_def)

section \<open>Opening a ticket\<close>

text \<open>
  C4 (the code departs from the claim). For every request of a logged-in user that has no
  \<open>User-Agent\<close> header, \<open>GET /account/ticket\<close> raises KeyError at
  \<open>req.headers["User-Agent"]\<close>: no ticket is issued, the state is left as it was and no
  token is returned. The default \<open>unknown agent\<close> is taken only for a header that is
  present and empty (lemmas \<open>open_ticket_present_agent\<close> and \<open>open_ticket_examples\<close>).
\<close>

theorem open_ticket_absent_agent:
  assumes "user (ctx req) = Some usr" and "headers req ''User-Agent'' = None"
  shows "open_ticket_endpoint M req w = (Inl KeyError, w)"
  using assms
  by (simp add: open_ticket_endpoint_def requires_login_def truthy_def open_ticket_def
      headers_getitem_def)

theorem open_ticket_absent_agent_witness:
  "open_ticket_endpoint example_models (example_agent_request None) 0 = (Inl KeyError, 0)"
  using open_ticket_absent_agent [of "example_agent_request None" "''root''" example_models 0]
  by (simp add: example_agent_request_def)

lemma open_ticket_present_agent:
  assumes "user (ctx req) = Some usr" and "headers req ''User-Agent'' = Some agent"
    and "create_ticket M usr (ip req) (if agent = [] then ''unknown agent'' else agent) w = (tkt, w')"
  shows "open_ticket_endpoint M req w =
           (Inr \<lparr>body = PDict [(''success'', PStr ''ticket created''),
                              (''data'', PDict [(''token'', PStr (token tkt))])],
                 status = 200\<rparr>, w')"
  using assms
  by (auto simp: open_ticket_endpoint_def requires_login_def truthy_def open_ticket_def
      headers_getitem_def json_res_def json_response_def split: if_splits)

lemma open_ticket_examples:
  "open_ticket_endpoint example_models (example_agent_request (Some '''')) 0 =
     (Inr \<lparr>body = PDict [(''success'', PStr ''ticket created''),
                        (''data'', PDict [(''token'', PStr ''unknown agent@203.0.113.7'')])],
           status = 200\<rparr>, 1)"
  "open_ticket_endpoint example_models (example_agent_request (Some ''curl/8.0'')) 0 =
     (Inr \<lparr>body = PDict [(''success'', PStr ''ticket created''),
                        (''data'', PDict [(''token'', PStr ''curl/8.0@203.0.113.7'')])],
           status = 200\<rparr>, 1)"
  by (simp_all add: open_ticket_endpoint_def requires_login_def truthy_def open_ticket_def
      headers_getitem_def json_res_def json_response_def example_agent_request_def
      example_models_def)

section \<open>Fresh ticket tokens\<close>

text \<open>
  C5 (as amended). For every store and every sequence of generated tokens in which some
  token is not in the store, \<open>get_new_ticket\<close> returns the first generated token that is
  not in the store, having drawn the tokens up to it and no more; in particular, when the
  first generated token is in the store and the second is not, it returns the second
  after drawing exactly two tokens, which is one regeneration. Whatever it returns is not
  in the store. When every generated token is in the store it never returns.
\<close>

theorem get_new_ticket_fresh:
  "(\<not> ticket_in_store d (gen (n + k)) \<and> (\<forall>j<k. ticket_in_store d (gen (n + j))) \<longrightarrow>
      get_new_ticket d gen n = Some (gen (n + k), Suc (n + k)))
   \<and> (ticket_in_store d (gen n) \<and> \<not> ticket_in_store d (gen (Suc n)) \<longrightarrow>
        get_new_ticket d gen n = Some (gen (Suc n), n + 2))
   \<and> (\<forall>tkt m. get_new_ticket d gen n = Some (tkt, m) \<longrightarrow> \<not> ticket_in_store d tkt)
   \<and> ((\<forall>i. ticket_in_store d (gen (n + i))) \<longrightarrow> get_new_ticket d gen n = None)"
proof (intro conjI impI allI)
  assume "\<not> ticket_in_store d (gen (n + k)) \<and> (\<forall>j<k. ticket_in_store d (gen (n + j)))"
  then show "get_new_ticket d gen n = Some (gen (n + k), Suc (n + k))"
    using get_new_ticket_first_fresh by blast
next
  assume a: "ticket_in_store d (gen n) \<and> \<not> ticket_in_store d (gen (Suc n))"
  then have "\<not> ticket_in_store d (gen (n + 1))" by simp
  moreover from a have "\<forall>j<(1::nat). ticket_in_store d (gen (n + j))" by simp
  ultimately have "get_new_ticket d gen n = Some (gen (n + 1), Suc (n + 1))"
    by (rule get_new_ticket_first_fresh)
  then show "get_new_ticket d gen n = Some (gen (Suc n), n + 2)" by simp
next
  fix tkt m
  assume "get_new_ticket d gen n = Some (tkt, m)"
  then show "\<not> ticket_in_store d tkt" by (rule get_new_ticket_result_fresh)
next
  assume "\<forall>i. ticket_in_store d (gen (n + i))"
  then show "get_new_ticket d gen n = None" by (rule get_new_ticket_diverges)
qed

theorem get_new_ticket_fresh_witness:
  "ticket_in_store example_db (example_gen 0)
   \<and> get_new_ticket example_db example_gen 0 = Some (''tok1'', 2)"
  using get_new_ticket_fresh [of example_db example_gen 0 1]
  by (simp add: example_db_def example_gen_def ticket_in_store_def)

theorem get_new_ticket_never_returns_counterexample:
  "ticket_in_store example_db ''tok0''
   \<and> get_new_ticket example_db (\<lambda>i. ''tok0'') 0 = None"
proof -
  have a: "ticket_in_store example_db ''tok0''"
    by (simp add: example_db_def ticket_in_store_def)
  then have "\<forall>i. ticket_in_store example_db ((\<lambda>i. ''tok0'') (0 + i))" by simp
  then have "get_new_ticket example_db (\<lambda>i. ''tok0'') 0 = None"
    by (rule get_new_ticket_diverges)
  with a show ?thesis by simp
qed

end
